theory Spec2Isabelle
  imports Main "HOL-Library.Finite_Map"
begin

section \<open>Error values\<close>

text \<open>
  The package \<^verbatim>\<open>errs\<close> works on values of Go's interface type \<^verbatim>\<open>error\<close>. The embedding
  fixes the dynamic types such a value can have here: the slug types of \<^verbatim>\<open>slug.go\<close>, the
  struct \<^verbatim>\<open>Err\<close>, the three error types the standard library builds
  (\<^verbatim>\<open>errors.New\<close>, and \<^verbatim>\<open>fmt.Errorf\<close> with one or with several \<^verbatim>\<open>%w\<close>), and the two
  error types of the validator library that \<^verbatim>\<open>NewFromValidator\<close> looks at.
\<close>

text \<open>
  Modelled from the spec: the slug type \<^verbatim>\<open>BadRequest\<close>, which \<^verbatim>\<open>http.go\<close> and the README
  use and \<^verbatim>\<open>slug.go\<close> does not declare; the table of the spec has the category
  "Invalid/BadRequest", so it is a slug type like the others. The other eight are the
  types \<^verbatim>\<open>slug.go\<close> declares. Every slug type is a string type with its own name; a slug
  value is the name of its type and its string.
\<close>

datatype slug_type =
  NotFound | Duplicate | Invalid | Forbidden | Unauthorized
  | NotImplemented | Internal | Unknown | BadRequest

text \<open>
  The validator library is outside the repository. Of a \<^verbatim>\<open>validator.FieldError\<close> the code
  calls \<^verbatim>\<open>Field()\<close>, \<^verbatim>\<open>Error()\<close> and \<^verbatim>\<open>Translate(translator)\<close>; a field error is these three
  answers. A translator is known by its locale. \<^verbatim>\<open>FieldError\<close> is an interface, so an
  element of a \<^verbatim>\<open>ValidationErrors\<close> slice can be the nil interface value: an element is
  \<open>None\<close> for nil and \<open>Some fe\<close> for a field error.
\<close>

datatype Translator = Translator string

datatype FieldError =
  FieldError (fe_Field: string) (fe_Error: string) (fe_Translate: "Translator \<Rightarrow> string")

text \<open>
  \<^item> \<open>nil\<close> is the nil interface value.
  \<^item> \<open>Slug t s\<close> is the string \<open>s\<close> at the slug type \<open>t\<close>.
  \<^item> \<open>ErrV e\<close> is an \<^verbatim>\<open>Err\<close> struct held as an \<^verbatim>\<open>error\<close>. \<^verbatim>\<open>Err\<close> has no \<^verbatim>\<open>Unwrap\<close>
    method.
  \<^item> \<open>errorString s\<close> is what \<^verbatim>\<open>errors.New(s)\<close> returns: no \<^verbatim>\<open>Unwrap\<close>.
  \<^item> \<open>wrapError msg inner\<close> is \<^verbatim>\<open>fmt.Errorf\<close> with one \<^verbatim>\<open>%w\<close>: \<^verbatim>\<open>Unwrap() error\<close>
    returns \<open>inner\<close>.
  \<^item> \<open>wrapErrors msg inners\<close> is \<^verbatim>\<open>fmt.Errorf\<close> with several \<^verbatim>\<open>%w\<close>:
    \<^verbatim>\<open>Unwrap() []error\<close> returns \<open>inners\<close>.
  \<^item> \<open>InvalidValidationError msg\<close> is a \<^verbatim>\<open>*validator.InvalidValidationError\<close> and
    \<open>ValidationErrors msg fes\<close> a \<^verbatim>\<open>validator.ValidationErrors\<close> (a slice of field
    errors); \<open>msg\<close> is the text the library's \<^verbatim>\<open>Error()\<close> renders for it. For the
    slice the library calls \<^verbatim>\<open>Error()\<close> on each element, which panics on a nil one.

  The struct \<^verbatim>\<open>Err\<close> has the fields \<^verbatim>\<open>slug\<close>, \<^verbatim>\<open>error\<close>, \<^verbatim>\<open>details\<close> and \<^verbatim>\<open>params\<close>.
  \<^verbatim>\<open>Slug\<close> is an interface with the method set of \<^verbatim>\<open>error\<close>, so the field \<^verbatim>\<open>slug\<close> holds
  any error value or nil. \<^verbatim>\<open>Params\<close> is a Go map, a reference: the field \<^verbatim>\<open>params\<close> is
  \<open>None\<close> for the nil map and \<open>Some a\<close> for the map stored at address \<open>a\<close>.
\<close>

datatype error =
  nil
  | Slug slug_type string
  | ErrV Err
  | errorString string
  | wrapError string error
  | wrapErrors string "error list"
  | InvalidValidationError string
  | ValidationErrors string "FieldError option list"
and Err =
  Err (slug: error) (error: error) (details: string) (params: "nat option")

datatype panic = NilDereference | TypeAssertion

subsection \<open>The slug constants of \<^verbatim>\<open>slug.go\<close>\<close>

definition SlugUnknown :: error where "SlugUnknown = Slug Unknown ''unknown''"
definition SlugNotFound :: error where "SlugNotFound = Slug NotFound ''not-found''"
definition SlugInvalid :: error where "SlugInvalid = Slug Invalid ''request-invalid''"
definition SlugUnauthorized :: error where "SlugUnauthorized = Slug Unauthorized ''unauthorized''"
definition SlugForbidden :: error where "SlugForbidden = Slug Forbidden ''forbidden''"
definition SlugDuplicate :: error where "SlugDuplicate = Slug Duplicate ''already-exists''"
definition SlugNotImplemented :: error where
  "SlugNotImplemented = Slug NotImplemented ''not-implemented''"
definition SlugInternal :: error where "SlugInternal = Slug Internal ''internal-error''"

definition builtin_slugs :: "error list" where
  "builtin_slugs = [SlugUnknown, SlugNotFound, SlugInvalid, SlugUnauthorized, SlugForbidden,
     SlugDuplicate, SlugNotImplemented, SlugInternal]"

subsection \<open>The method \<^verbatim>\<open>Error()\<close>\<close>

text \<open>
  Calling \<^verbatim>\<open>Error()\<close> on the nil interface panics. A slug returns its string, a standard
  library error its stored message. \<^verbatim>\<open>Err.Error\<close> calls \<^verbatim>\<open>e.error.Error()\<close> in both
  branches, so a nil cause panics there.
\<close>

fun Error :: "error \<Rightarrow> panic + string"
  and Err_Error :: "Err \<Rightarrow> panic + string" where
  "Error nil = Inl NilDereference"
| "Error (Slug t s) = Inr s"
| "Error (ErrV e) = Err_Error e"
| "Error (errorString s) = Inr s"
| "Error (wrapError msg inner) = Inr msg"
| "Error (wrapErrors msg inners) = Inr msg"
| "Error (InvalidValidationError msg) = Inr msg"
| "Error (ValidationErrors msg fes) = (if None \<in> set fes then Inl NilDereference else Inr msg)"
| "Err_Error (Err sl cause d p) =
     (if d = '''' then Error cause
      else (case Error cause of Inl x \<Rightarrow> Inl x | Inr m \<Rightarrow> Inr (m @ '': '' @ d)))"

subsection \<open>\<^verbatim>\<open>errors.As\<close>\<close>

text \<open>
  \<^verbatim>\<open>errors.As(err, target)\<close> returns false for a nil \<open>err\<close>. Otherwise it walks the tree
  of \<open>err\<close>: if the dynamic type of the current error is assignable to the type \<open>target\<close>
  points to, it stores the error there and returns true; else it follows
  \<^verbatim>\<open>Unwrap() error\<close> (a nil result ends the walk with false), or tries each non-nil element
  of \<^verbatim>\<open>Unwrap() []error\<close> in order, depth first; an error with neither method ends the
  walk with false. None of the types here has an \<^verbatim>\<open>As\<close> method. The first argument of
  \<open>errorsAs\<close> says which values are assignable to the target's type; the result is the
  value stored in the target, \<open>None\<close> for false.
\<close>

fun errorsAs :: "(error \<Rightarrow> bool) \<Rightarrow> error \<Rightarrow> error option"
  and errorsAs_each :: "(error \<Rightarrow> bool) \<Rightarrow> error list \<Rightarrow> error option" where
  "errorsAs T nil = None"
| "errorsAs T (wrapError m inner) =
     (if T (wrapError m inner) then Some (wrapError m inner) else errorsAs T inner)"
| "errorsAs T (wrapErrors m es) =
     (if T (wrapErrors m es) then Some (wrapErrors m es) else errorsAs_each T es)"
| "errorsAs T e = (if T e then Some e else None)"
| "errorsAs_each T [] = None"
| "errorsAs_each T (e # es) =
     (case errorsAs T e of Some x \<Rightarrow> Some x | None \<Rightarrow> errorsAs_each T es)"

text \<open>The three target types the package uses.\<close>

fun assignable_Err :: "error \<Rightarrow> bool" where
  "assignable_Err (ErrV e) = True"
| "assignable_Err x = False"

fun assignable_InvalidValidationError :: "error \<Rightarrow> bool" where
  "assignable_InvalidValidationError (InvalidValidationError msg) = True"
| "assignable_InvalidValidationError x = False"

text \<open>
  A target of type \<^verbatim>\<open>*error\<close> points to the interface type \<^verbatim>\<open>error\<close>, to which the type
  of every error is assignable.
\<close>

definition assignable_error :: "error \<Rightarrow> bool" where
  "assignable_error x = True"

text \<open>\<^verbatim>\<open>var e Err; errors.As(err, &e)\<close>: the \<^verbatim>\<open>Err\<close> found, if any.\<close>

definition errorsAs_Err :: "error \<Rightarrow> Err option" where
  "errorsAs_Err err =
     (case errorsAs assignable_Err err of Some (ErrV e) \<Rightarrow> Some e | _ \<Rightarrow> None)"

section \<open>Parameter maps\<close>

text \<open>
  A Go map is a reference to a table that every holder of the reference sees. The store
  keeps the tables by address; \<open>fresh\<close> is the next address \<^verbatim>\<open>make\<close> hands out. A table is
  a finite map, and \<^verbatim>\<open>len\<close> counts its keys; the nil map has length 0.
\<close>

record heap =
  cells :: "nat \<Rightarrow> (string, string) fmap"
  fresh :: nat

definition make :: "heap \<Rightarrow> nat \<times> heap" where
  "make h = (fresh h, h\<lparr>cells := (cells h)(fresh h := fmempty), fresh := Suc (fresh h)\<rparr>)"

definition store :: "heap \<Rightarrow> nat \<Rightarrow> string \<Rightarrow> string \<Rightarrow> heap" where
  "store h a k v = h\<lparr>cells := (cells h)(a := fmupd k v (cells h a))\<rparr>"

fun entries :: "heap \<Rightarrow> nat option \<Rightarrow> (string, string) fmap" where
  "entries h None = fmempty"
| "entries h (Some a) = cells h a"

definition len :: "heap \<Rightarrow> nat option \<Rightarrow> nat" where
  "len h p = fcard (fmdom (entries h p))"

definition NewParams :: "heap \<Rightarrow> nat option \<times> heap" where
  "NewParams h = (case make h of (a, h') \<Rightarrow> (Some a, h'))"

text \<open>
  \<^verbatim>\<open>func (p *Params) Add(key, value string)\<close>: \<open>p\<close> is the map variable the receiver
  points to; the result is its new value and the new store.
\<close>

definition Add :: "nat option \<Rightarrow> string \<Rightarrow> string \<Rightarrow> heap \<Rightarrow> nat option \<times> heap" where
  "Add p key val h =
     (case p of
        None \<Rightarrow> (case make h of (a, h') \<Rightarrow> (Some a, store h' a key val))
      | Some a \<Rightarrow> (Some a, store h a key val))"

definition IsNil :: "nat option \<Rightarrow> heap \<Rightarrow> bool" where
  "IsNil p h = (len h p = 0)"

section \<open>Construction\<close>

fun Join :: "string list \<Rightarrow> string \<Rightarrow> string" where
  "Join [] sep = ''''"
| "Join [x] sep = x"
| "Join (x # y # ys) sep = x @ sep @ Join (y # ys) sep"

definition New :: "error \<Rightarrow> string list \<Rightarrow> Err" where
  "New sl ds = Err sl sl (Join ds '': '') None"

definition getErr :: "error \<Rightarrow> Err" where
  "getErr err =
     (case errorsAs_Err err of
        None \<Rightarrow> Err SlugUnknown err '''' None
      | Some e \<Rightarrow> e)"

definition NewFromError :: "error \<Rightarrow> Err" where
  "NewFromError err = getErr err"

text \<open>
  The loop of \<^verbatim>\<open>NewFromValidator\<close> over the field errors. Its first step on an element
  is the call \<^verbatim>\<open>err.Error()\<close>, which panics when the element is the nil interface value;
  the entries added before that element stay in the store. \<open>lower\<close> stands for
  \<^verbatim>\<open>strings.ToLower\<close>, a function of the standard library with Unicode tables.
\<close>

fun NewFromValidator_loop ::
  "(string \<Rightarrow> string) \<Rightarrow> Translator option \<Rightarrow> FieldError option list \<Rightarrow> Err \<Rightarrow> heap
     \<Rightarrow> panic + Err \<times> heap"
where
  "NewFromValidator_loop lower translator [] e h = Inr (e, h)"
| "NewFromValidator_loop lower translator (None # fes) e h = Inl NilDereference"
| "NewFromValidator_loop lower translator (Some fe # fes) e h =
     (let msg = (case translator of None \<Rightarrow> fe_Error fe | Some t \<Rightarrow> fe_Translate fe t);
          field = lower (fe_Field fe)
      in case Add (params e) field msg h of
           (p, h') \<Rightarrow>
             NewFromValidator_loop lower translator fes
               (Err (slug e) (error e) (details e) p) h')"

text \<open>
  \<^verbatim>\<open>err.(validator.ValidationErrors)\<close> is a type assertion without the comma-ok form: it
  panics unless the dynamic type of \<open>err\<close> itself is \<^verbatim>\<open>validator.ValidationErrors\<close>.
\<close>

definition NewFromValidator ::
  "(string \<Rightarrow> string) \<Rightarrow> error \<Rightarrow> Translator option \<Rightarrow> heap \<Rightarrow> panic + Err \<times> heap"
where
  "NewFromValidator lower err translator h =
     (if errorsAs assignable_InvalidValidationError err \<noteq> None
      then Inr (Err SlugInvalid err '''' None, h)
      else (case err of
              ValidationErrors msg fes \<Rightarrow>
                NewFromValidator_loop lower translator fes
                  (Err SlugInvalid err '''' None) h
            | _ \<Rightarrow> Inl TypeAssertion))"

section \<open>Enrichment\<close>

text \<open>
  What \<^verbatim>\<open>fmt\<close> prints for an operand of the verb \<^verbatim>\<open>%w\<close> inside \<^verbatim>\<open>Errorf\<close>: the text of
  \<^verbatim>\<open>Error()\<close>; for the nil interface the bad-verb text; and where \<^verbatim>\<open>Error()\<close> panics,
  \<^verbatim>\<open>fmt\<close> recovers and prints the panic. \<^verbatim>\<open>Errorf\<close> with two \<^verbatim>\<open>%w\<close> keeps the operands
  that are errors, in order.
\<close>

definition fmt_w :: "error \<Rightarrow> string" where
  "fmt_w x =
     (if x = nil then ''%!w(<nil>)''
      else (case Error x of
              Inr m \<Rightarrow> m
            | Inl p \<Rightarrow> ''%!v(PANIC=Error method: runtime error: invalid memory address or nil pointer dereference)''))"

definition Errorf_w :: "string \<Rightarrow> error \<Rightarrow> error" where
  "Errorf_w prefix x = wrapError (prefix @ fmt_w x) x"

definition Errorf_w_w :: "error \<Rightarrow> error \<Rightarrow> error" where
  "Errorf_w_w x y = wrapErrors (fmt_w x @ '': '' @ fmt_w y) (filter (\<lambda>z. z \<noteq> nil) [x, y])"

definition WithError :: "Err \<Rightarrow> error \<Rightarrow> Err" where
  "WithError e err = Err (slug e) (Errorf_w_w (error e) err) (details e) (params e)"

definition WithDetails :: "Err \<Rightarrow> string \<Rightarrow> Err" where
  "WithDetails e d = Err (slug e) (error e) (details e @ '': '' @ d) (params e)"

text \<open>
  \<^verbatim>\<open>WithParams\<close> has a value receiver: the struct is copied, the table its field \<^verbatim>\<open>params\<close>
  refers to is not. The argument is the caller's map as the entries the \<^verbatim>\<open>range\<close> loop
  visits, in that order.
\<close>

definition WithParams :: "Err \<Rightarrow> (string \<times> string) list \<Rightarrow> heap \<Rightarrow> Err \<times> heap" where
  "WithParams e m h =
     (case (case params e of None \<Rightarrow> make h | Some a \<Rightarrow> (a, h)) of
        (a, h1) \<Rightarrow>
          (Err (slug e) (error e) (details e) (Some a),
           fold (\<lambda>(k, v) hh. store hh a k v) m h1))"

section \<open>Extraction\<close>

definition DetailFromErr :: "error \<Rightarrow> string" where
  "DetailFromErr err =
     (case errorsAs_Err err of Some e \<Rightarrow> details e | None \<Rightarrow> ''unknown error'')"

definition ParamsFromErr :: "error \<Rightarrow> nat option" where
  "ParamsFromErr err =
     (case errorsAs_Err err of Some e \<Rightarrow> params e | None \<Rightarrow> None)"

definition SlugFromErr :: "error \<Rightarrow> error" where
  "SlugFromErr err =
     (case errorsAs_Err err of Some e \<Rightarrow> slug e | None \<Rightarrow> SlugUnknown)"

section \<open>Transport mapping\<close>

text \<open>
  The map literal of \<^verbatim>\<open>HTTPStatus\<close>. Each key is the nil pointer \<^verbatim>\<open>(*T)(nil)\<close> of a slug
  type \<open>T\<close>, held as an \<^verbatim>\<open>error\<close>; the six keys differ in their types, so the map has six
  entries.
\<close>

definition errorMap :: "(slug_type \<times> int) list" where
  "errorMap =
     [(NotFound, 404), (BadRequest, 400), (Unauthorized, 401),
      (Forbidden, 403), (Duplicate, 409), (NotImplemented, 501)]"

text \<open>
  Go leaves the order in which \<^verbatim>\<open>range\<close> visits a map open, and the runtime picks one at
  every loop. The order is therefore an argument of the model: any list that holds
  each entry of the map once.
\<close>

definition iteration_order :: "(slug_type \<times> int) list \<Rightarrow> bool" where
  "iteration_order ord = (distinct ord \<and> set ord = set errorMap)"

text \<open>
  The loop variable \<^verbatim>\<open>errType\<close> has the key type of the map, \<^verbatim>\<open>error\<close>, so the target
  \<^verbatim>\<open>&errType\<close> is a \<^verbatim>\<open>*error\<close>: \<^verbatim>\<open>errors.As\<close> tests assignability to the interface
  \<^verbatim>\<open>error\<close> and the key's own type plays no part.
\<close>

fun HTTPStatus_loop :: "(slug_type \<times> int) list \<Rightarrow> error \<Rightarrow> int" where
  "HTTPStatus_loop [] sl = 500"
| "HTTPStatus_loop ((errType, statusCode) # rest) sl =
     (if errorsAs assignable_error sl \<noteq> None then statusCode
      else HTTPStatus_loop rest sl)"

definition HTTPStatus :: "(slug_type \<times> int) list \<Rightarrow> error \<Rightarrow> int" where
  "HTTPStatus ord err = (let e = getErr err in HTTPStatus_loop ord (slug e))"




section \<open>Notions the claims are stated with\<close>

text \<open>
  The unwrap chain of an error: the error itself and everything reachable from it through
  \<^verbatim>\<open>Unwrap() error\<close> and \<^verbatim>\<open>Unwrap() []error\<close>, nil left out, listed in the order a
  depth-first walk meets them. It does not depend on any target type.
\<close>

fun chain :: "error \<Rightarrow> error list"
  and chain_each :: "error list \<Rightarrow> error list" where
  "chain nil = []"
| "chain (wrapError m inner) = wrapError m inner # chain inner"
| "chain (wrapErrors m es) = wrapErrors m es # chain_each es"
| "chain e = [e]"
| "chain_each [] = []"
| "chain_each (e # es) = chain e @ chain_each es"

text \<open>
  Generic wrapping, \<^verbatim>\<open>fmt.Errorf(prefix + "%w", err)\<close>, applied once for each prefix of
  the list, the first prefix outermost.
\<close>

fun wrapN :: "string list \<Rightarrow> error \<Rightarrow> error" where
  "wrapN [] e = e"
| "wrapN (p # ps) e = Errorf_w p (wrapN ps e)"

text \<open>
  What can be observed of a Typed Error in a store: its classification, its cause, its
  detail, and the entries of the table its field \<^verbatim>\<open>params\<close> refers to.
\<close>

definition observe :: "heap \<Rightarrow> Err \<Rightarrow> error \<times> error \<times> string \<times> (string, string) fmap" where
  "observe h e = (slug e, error e, details e, entries h (params e))"

text \<open>A sequence of enrichment calls, each applied to the result of the one before.\<close>

datatype enrichment =
  EWithError error | EWithDetails string | EWithParams "(string \<times> string) list"

fun enrich :: "enrichment \<Rightarrow> Err \<Rightarrow> heap \<Rightarrow> Err \<times> heap" where
  "enrich (EWithError x) e h = (WithError e x, h)"
| "enrich (EWithDetails d) e h = (WithDetails e d, h)"
| "enrich (EWithParams m) e h = WithParams e m h"

fun enrich_all :: "enrichment list \<Rightarrow> Err \<Rightarrow> heap \<Rightarrow> Err \<times> heap" where
  "enrich_all [] e h = (e, h)"
| "enrich_all (x # xs) e h = (case enrich x e h of (e', h') \<Rightarrow> enrich_all xs e' h')"

fun is_WithParams :: "enrichment \<Rightarrow> bool" where
  "is_WithParams (EWithParams m) = True"
| "is_WithParams x = False"

text \<open>The dynamic type of the error itself is \<^verbatim>\<open>validator.ValidationErrors\<close>.\<close>

fun is_ValidationErrors :: "error \<Rightarrow> bool" where
  "is_ValidationErrors (ValidationErrors msg fes) = True"
| "is_ValidationErrors x = False"

subsection \<open>Example values\<close>

text \<open>
  A store with no table yet; the error \<^verbatim>\<open>New(SlugInvalid).WithParams({"x": "1"})\<close> built in
  it and the store after that call; and a store whose table 0 has one validation message.
\<close>

definition empty_heap :: heap where
  "empty_heap = \<lparr>cells = (\<lambda>a. fmempty), fresh = 0\<rparr>"

definition example_err :: Err where
  "example_err = fst (WithParams (New SlugInvalid []) [(''x'', ''1'')] empty_heap)"

definition example_heap :: heap where
  "example_heap = snd (WithParams (New SlugInvalid []) [(''x'', ''1'')] empty_heap)"


section \<open>Helper facts\<close>

lemma getErr_ErrV: "getErr (ErrV e) = e"
  by (simp add: getErr_def errorsAs_Err_def)

lemma errorsAs_error_not_nil: "x \<noteq> nil \<Longrightarrow> errorsAs assignable_error x = Some x"
  by (cases x) (simp_all add: assignable_error_def)

lemma HTTPStatus_loop_first:
  "ord \<noteq> [] \<Longrightarrow> sl \<noteq> nil \<Longrightarrow> HTTPStatus_loop ord sl = snd (hd ord)"
  by (cases ord) (auto simp: errorsAs_error_not_nil)

lemma HTTPStatus_loop_nil: "HTTPStatus_loop ord nil = 500"
  by (induction ord) auto

lemma iteration_order_hd:
  assumes "iteration_order ord"
  shows "ord \<noteq> [] \<and> snd (hd ord) \<in> {404, 400, 401, 403, 409, 501}"
proof -
  have s: "set ord = set errorMap" using assms by (simp add: iteration_order_def)
  have "set errorMap \<noteq> {}" by (simp add: errorMap_def)
  with s have ne: "ord \<noteq> []" by auto
  then have m: "hd ord \<in> set errorMap" using s hd_in_set by blast
  have "\<forall>p \<in> set errorMap. snd p \<in> {404, 400, 401, 403, 409, 501}"
    by (simp add: errorMap_def)
  with m ne show ?thesis by blast
qed

lemma iteration_order_errorMap: "iteration_order errorMap"
  by (simp add: iteration_order_def errorMap_def)

lemma iteration_order_rev: "iteration_order ord \<Longrightarrow> iteration_order (rev ord)"
  by (simp add: iteration_order_def)

lemma builtin_slugs_not_nil: "c \<in> set builtin_slugs \<Longrightarrow> c \<noteq> nil"
  by (auto simp: builtin_slugs_def SlugUnknown_def SlugNotFound_def SlugInvalid_def
      SlugUnauthorized_def SlugForbidden_def SlugDuplicate_def SlugNotImplemented_def
      SlugInternal_def)

lemma find_app:
  "find P (xs @ ys) = (case find P xs of None \<Rightarrow> find P ys | Some x \<Rightarrow> Some x)"
  by (induction xs) simp_all

text \<open>\<^verbatim>\<open>errors.As\<close> returns the first error of the unwrap chain that fits the target.\<close>

lemma errorsAs_find:
  "errorsAs T err = find T (chain err)"
  "errorsAs_each T es = find T (chain_each es)"
  by (induction T err and T es rule: errorsAs_errorsAs_each.induct)
     (simp_all add: find_app split: option.splits)

lemma errorsAs_None_iff: "(errorsAs T err = None) = (\<not> list_ex T (chain err))"
  by (auto simp: errorsAs_find find_None_iff list_ex_iff)

lemma errorsAs_Err_wrapN: "errorsAs_Err (wrapN ps (ErrV e)) = Some e"
  by (induction ps) (simp_all add: errorsAs_Err_def Errorf_w_def)

lemma find_assignable_Err:
  "find assignable_Err xs = Some x \<Longrightarrow> \<exists>e. x = ErrV e"
  by (metis assignable_Err.elims(2) find_Some_iff)

lemma errorsAs_Err_found:
  assumes "\<exists>x \<in> set (chain err). assignable_Err x"
  shows "\<exists>e. find assignable_Err (chain err) = Some (ErrV e) \<and> errorsAs_Err err = Some e"
proof -
  from assms obtain x where x: "find assignable_Err (chain err) = Some x"
    by (meson find_None_iff not_Some_eq)
  then obtain e where "x = ErrV e" using find_assignable_Err by blast
  with x show ?thesis by (simp add: errorsAs_Err_def errorsAs_find)
qed

lemma errorsAs_Err_not_found:
  assumes "\<forall>x \<in> set (chain err). \<not> assignable_Err x"
  shows "errorsAs_Err err = None"
proof -
  have "find assignable_Err (chain err) = None" using assms by (simp add: find_None_iff)
  then show ?thesis by (simp add: errorsAs_Err_def errorsAs_find)
qed

lemma enrich_all_no_WithParams:
  "\<forall>x \<in> set ops. \<not> is_WithParams x \<Longrightarrow> snd (enrich_all ops e h) = h"
proof (induction ops arbitrary: e)
  case Nil
  then show ?case by simp
next
  case (Cons x xs)
  then show ?case by (cases x) simp_all
qed

lemma cells_fold_store_other:
  "b \<noteq> a \<Longrightarrow> cells (fold (\<lambda>(k, v) hh. store hh a k v) m h) b = cells h b"
  by (induction m arbitrary: h) (auto simp: store_def)






text \<open>A nil element in the slice makes the loop of \<^verbatim>\<open>NewFromValidator\<close> panic.\<close>

lemma NewFromValidator_nil_element:
  "NewFromValidator lower (ValidationErrors msg (None # fes)) translator h = Inl NilDereference"
  by (simp add: NewFromValidator_def)

section \<open>Status codes\<close>

text \<open>
  Claim C1 says that \<^verbatim>\<open>HTTPStatus(New(c))\<close> is the status of the table for each of the
  eight built-in slugs \<open>c\<close>, 500 for \<^verbatim>\<open>SlugInternal\<close> and \<^verbatim>\<open>SlugUnknown\<close>. The code does
  otherwise: the slug of \<^verbatim>\<open>New(c)\<close> is not nil, \<^verbatim>\<open>errors.As\<close> with a target of type
  \<^verbatim>\<open>*error\<close> accepts it at the first entry the loop visits, and \<^verbatim>\<open>HTTPStatus\<close> returns the
  status of that entry, whatever \<open>c\<close> is. For every iteration order and each of the
  eight slugs the result is the status of the first entry visited, one of 404, 400, 401,
  403, 409 and 501, hence never 500.
\<close>

theorem HTTPStatus_New_first_entry:
  assumes "iteration_order ord" and "c \<in> set builtin_slugs"
  shows "HTTPStatus ord (ErrV (New c [])) = snd (hd ord)
       \<and> HTTPStatus ord (ErrV (New c [])) \<in> {404, 400, 401, 403, 409, 501}"
proof -
  have ne: "ord \<noteq> []" and cod: "snd (hd ord) \<in> {404, 400, 401, 403, 409, 501}"
    using iteration_order_hd [OF assms(1)] by simp_all
  have "slug (getErr (ErrV (New c []))) = c"
    by (simp add: getErr_ErrV New_def)
  then have "HTTPStatus ord (ErrV (New c [])) = snd (hd ord)"
    using HTTPStatus_loop_first [OF ne builtin_slugs_not_nil [OF assms(2)]]
    by (simp add: HTTPStatus_def)
  then show ?thesis using cod by simp
qed

theorem HTTPStatus_New_first_entry_witness:
  "iteration_order errorMap \<and> SlugInternal \<in> set builtin_slugs
   \<and> HTTPStatus errorMap (ErrV (New SlugInternal [])) = 404"
  using HTTPStatus_New_first_entry [of errorMap SlugInternal]
  by (simp add: iteration_order_def errorMap_def builtin_slugs_def)

text \<open>
  Claim C2 says that \<^verbatim>\<open>HTTPStatus(nil)\<close> is 200. The code has no branch for a nil error:
  \<^verbatim>\<open>getErr(nil)\<close> is an \<^verbatim>\<open>Err\<close> with the slug \<^verbatim>\<open>SlugUnknown\<close>, which the loop accepts at
  the first entry it visits. For every iteration order \<^verbatim>\<open>HTTPStatus(nil)\<close> is the status
  of the first entry visited, and it is never 200.
\<close>

theorem HTTPStatus_nil_first_entry:
  assumes "iteration_order ord"
  shows "HTTPStatus ord nil = snd (hd ord) \<and> HTTPStatus ord nil \<noteq> 200"
proof -
  have ne: "ord \<noteq> []" and cod: "snd (hd ord) \<in> {404, 400, 401, 403, 409, 501}"
    using iteration_order_hd [OF assms(1)] by simp_all
  have "slug (getErr nil) = SlugUnknown"
    by (simp add: getErr_def errorsAs_Err_def)
  moreover have "SlugUnknown \<noteq> nil" by (simp add: SlugUnknown_def)
  ultimately have "HTTPStatus ord nil = snd (hd ord)"
    using HTTPStatus_loop_first [OF ne] by (simp add: HTTPStatus_def)
  then show ?thesis using cod by auto
qed

theorem HTTPStatus_nil_first_entry_witness:
  "iteration_order errorMap \<and> HTTPStatus errorMap nil = 404"
  using HTTPStatus_nil_first_entry [of errorMap]
  by (simp add: iteration_order_def errorMap_def)

text \<open>
  Claim C3 says that two evaluations of \<^verbatim>\<open>HTTPStatus\<close> on the same error return the same
  status. The result of the code is the status of the entry its \<^verbatim>\<open>range\<close> loop visits
  first, and the runtime chooses the order anew at each loop: on \<^verbatim>\<open>New(SlugNotFound)\<close>
  the order of the map literal gives 404 and the reverse order gives 501.
\<close>

theorem HTTPStatus_depends_on_iteration_order:
  "iteration_order errorMap \<and> iteration_order (rev errorMap)
   \<and> HTTPStatus errorMap (ErrV (New SlugNotFound [])) = 404
   \<and> HTTPStatus (rev errorMap) (ErrV (New SlugNotFound [])) = 501"
proof -
  have "HTTPStatus errorMap (ErrV (New SlugNotFound [])) = 404"
    by (simp add: errorMap_def HTTPStatus_def getErr_ErrV New_def
      SlugNotFound_def assignable_error_def)
  moreover have "HTTPStatus (rev errorMap) (ErrV (New SlugNotFound [])) = 501"
    by (simp add: errorMap_def HTTPStatus_def getErr_ErrV New_def
      SlugNotFound_def assignable_error_def)
  ultimately show ?thesis
    using iteration_order_errorMap iteration_order_rev [OF iteration_order_errorMap] by simp
qed

section \<open>Enrichment and the receiver\<close>

text \<open>
  Claim C4 says that after \<^verbatim>\<open>e2 = e.WithParams(m)\<close> (or \<^verbatim>\<open>WithError\<close>, \<^verbatim>\<open>WithDetails\<close>) the
  classification, cause, detail and parameter entries of \<open>e\<close> are unchanged, also after
  further enrichment of \<open>e2\<close>. As stated it fails: the copy of the struct that
  \<^verbatim>\<open>WithParams\<close> works on refers to the same table as the receiver when the receiver has
  one. With \<^verbatim>\<open>e = New(SlugInvalid).WithParams({"x": "1"})\<close>, the call
  \<^verbatim>\<open>e.WithParams({"y": "2"})\<close> puts the key \<^verbatim>\<open>y\<close> among the entries of \<open>e\<close>.
\<close>

theorem WithParams_changes_receiver:
  "fmlookup (entries example_heap (params example_err)) ''y'' = None
   \<and> fmlookup (entries (snd (WithParams example_err [(''y'', ''2'')] example_heap))
        (params example_err)) ''y'' = Some ''2''
   \<and> observe (snd (WithParams example_err [(''y'', ''2'')] example_heap)) example_err
       \<noteq> observe example_heap example_err"
proof -
  have a: "fmlookup (entries example_heap (params example_err)) ''y'' = None"
    by (simp add: example_heap_def example_err_def WithParams_def New_def make_def
        store_def empty_heap_def)
  have b: "fmlookup (entries (snd (WithParams example_err [(''y'', ''2'')] example_heap))
        (params example_err)) ''y'' = Some ''2''"
    by (simp add: example_heap_def example_err_def WithParams_def New_def make_def
        store_def empty_heap_def)
  from a b have "entries (snd (WithParams example_err [(''y'', ''2'')] example_heap))
        (params example_err) \<noteq> entries example_heap (params example_err)"
    by (metis option.distinct(1))
  then show ?thesis using a b by (simp add: observe_def)
qed

text \<open>
  Claim C4 as amended. For every Typed Error \<open>e\<close> and every sequence of enrichment calls
  that starts at \<open>e\<close>, each call applied to the result of the one before: what can be
  observed of \<open>e\<close> is the same after the sequence as before it, provided the field
  \<^verbatim>\<open>params\<close> of \<open>e\<close> is nil, or no call of the sequence is \<^verbatim>\<open>WithParams\<close>. On a receiver
  whose \<^verbatim>\<open>params\<close> is nil, \<^verbatim>\<open>WithParams\<close> gives its result a newly made table; and
  \<^verbatim>\<open>WithParams\<close> never writes to a table other than the one its result refers to.
\<close>

theorem enrichment_frame:
  "(params e = None \<longrightarrow> observe (snd (enrich_all ops e h)) e = observe h e)
   \<and> ((\<forall>x \<in> set ops. \<not> is_WithParams x) \<longrightarrow> observe (snd (enrich_all ops e h)) e = observe h e)
   \<and> (params e = None \<longrightarrow> params (fst (WithParams e m h)) = Some (fresh h))
   \<and> (params (fst (WithParams e m h)) \<noteq> Some b \<longrightarrow>
          cells (snd (WithParams e m h)) b = cells h b)"
proof -
  have 1: "params e = None \<longrightarrow> observe (snd (enrich_all ops e h)) e = observe h e"
    by (simp add: observe_def)
  have 2: "(\<forall>x \<in> set ops. \<not> is_WithParams x) \<longrightarrow>
      observe (snd (enrich_all ops e h)) e = observe h e"
    using enrich_all_no_WithParams [of ops e h] by simp
  have 3: "params e = None \<longrightarrow> params (fst (WithParams e m h)) = Some (fresh h)"
    by (simp add: WithParams_def make_def)
  have 4: "params (fst (WithParams e m h)) \<noteq> Some b \<longrightarrow>
          cells (snd (WithParams e m h)) b = cells h b"
    by (cases "params e") (simp_all add: WithParams_def make_def cells_fold_store_other)
  from 1 2 3 4 show ?thesis by blast
qed

theorem enrichment_frame_witness:
  "observe (snd (enrich_all [EWithParams [(''x'', ''1'')], EWithDetails ''d'', EWithParams [(''y'', ''2'')]]
       (New SlugInvalid []) empty_heap)) (New SlugInvalid []) = observe empty_heap (New SlugInvalid [])
   \<and> observe (snd (enrich_all [EWithDetails ''d'', EWithError (errorString ''boom'')]
       example_err example_heap)) example_err = observe example_heap example_err
   \<and> params (fst (WithParams (New SlugInvalid []) [(''x'', ''1'')] empty_heap)) = Some 0
   \<and> cells (snd (WithParams example_err [(''y'', ''2'')] example_heap)) 7 = cells example_heap 7"
  using enrichment_frame [of "New SlugInvalid []"
      "[EWithParams [(''x'', ''1'')], EWithDetails ''d'', EWithParams [(''y'', ''2'')]]" empty_heap "[(''x'', ''1'')]" 7]
    enrichment_frame [of example_err "[EWithDetails ''d'', EWithError (errorString ''boom'')]"
      example_heap "[(''y'', ''2'')]" 7]
  by (simp add: New_def empty_heap_def example_err_def example_heap_def WithParams_def make_def
      store_def)

section \<open>Walking the chain\<close>

text \<open>
  Claim C5: a Typed Error built by \<^verbatim>\<open>New(c, ...)\<close> and wrapped any number of times by generic
  wrapping (the number is the length of \<open>ps\<close>, so 0, 1 and 5 are covered) gives back \<open>c\<close>
  under \<^verbatim>\<open>SlugFromErr\<close>; and whenever some Typed Error is in the unwrap chain of an error,
  at the top or below it, \<^verbatim>\<open>SlugFromErr\<close> finds one, the first of the chain, and returns
  its classification.
\<close>

theorem SlugFromErr_chain_walk:
  "SlugFromErr (wrapN ps (ErrV (New c ds))) = c
   \<and> ((\<exists>x \<in> set (chain err). assignable_Err x) \<longrightarrow>
        (\<exists>e. find assignable_Err (chain err) = Some (ErrV e) \<and> SlugFromErr err = slug e))"
proof -
  have "SlugFromErr (wrapN ps (ErrV (New c ds))) = c"
    by (simp add: SlugFromErr_def errorsAs_Err_wrapN New_def)
  moreover have "(\<exists>x \<in> set (chain err). assignable_Err x) \<longrightarrow>
        (\<exists>e. find assignable_Err (chain err) = Some (ErrV e) \<and> SlugFromErr err = slug e)"
  proof
    assume "\<exists>x \<in> set (chain err). assignable_Err x"
    then obtain e where "find assignable_Err (chain err) = Some (ErrV e)"
      and "errorsAs_Err err = Some e"
      using errorsAs_Err_found by blast
    then show "\<exists>e. find assignable_Err (chain err) = Some (ErrV e) \<and> SlugFromErr err = slug e"
      by (simp add: SlugFromErr_def)
  qed
  ultimately show ?thesis by simp
qed

theorem SlugFromErr_chain_walk_witness:
  "SlugFromErr (wrapN [''e: '', ''d: '', ''c: '', ''b: '', ''a: ''] (ErrV (New SlugForbidden [''x'']))) = SlugForbidden
   \<and> SlugFromErr (wrapErrors ''m'' [errorString ''s'', wrapError ''w'' (ErrV (New SlugDuplicate []))]) = SlugDuplicate"
  using SlugFromErr_chain_walk [of "[''e: '', ''d: '', ''c: '', ''b: '', ''a: '']" SlugForbidden "[''x'']"
      "wrapErrors ''m'' [errorString ''s'', wrapError ''w'' (ErrV (New SlugDuplicate []))]"]
  by (simp add: New_def)

text \<open>
  Claim C6: normalization is idempotent. \<^verbatim>\<open>NewFromError\<close> applied to its own result, held
  as an \<^verbatim>\<open>error\<close>, returns that result; so the classification and the detail stay as they
  are.
\<close>

theorem NewFromError_idempotent:
  "NewFromError (ErrV (NewFromError err)) = NewFromError err
   \<and> slug (NewFromError (ErrV (NewFromError err))) = slug (NewFromError err)
   \<and> details (NewFromError (ErrV (NewFromError err))) = details (NewFromError err)"
  by (simp add: NewFromError_def getErr_def errorsAs_Err_def)

section \<open>The problem payload\<close>




section \<open>Rendering\<close>

text \<open>
  Claim C8: \<^verbatim>\<open>e.Error()\<close> is the message of the cause of \<open>e\<close> when the detail of \<open>e\<close> is
  empty, and that message, \<^verbatim>\<open>": "\<close> and the detail otherwise; where the call on the
  cause panics, as it does on a nil cause, \<^verbatim>\<open>e.Error()\<close> panics in the same way. \<^verbatim>\<open>New\<close> takes the
  slug as the cause and joins the detail parts with \<^verbatim>\<open>": "\<close>, so
  \<^verbatim>\<open>New(SlugNotFound, "a", "b").Error()\<close> is \<^verbatim>\<open>"not-found: a: b"\<close>.
\<close>

theorem Err_Error_render:
  "(details e = '''' \<longrightarrow> Err_Error e = Error (error e))
   \<and> (details e \<noteq> '''' \<and> Error (error e) = Inr m \<longrightarrow> Err_Error e = Inr (m @ '': '' @ details e))
   \<and> (Error (error e) = Inl p \<longrightarrow> Err_Error e = Inl p)
   \<and> error (New c ds) = c \<and> details (New c ds) = Join ds '': ''
   \<and> Err_Error (New SlugNotFound [''a'', ''b'']) = Inr ''not-found: a: b''"
  by (cases e) (simp add: New_def SlugNotFound_def)

theorem Err_Error_render_witness:
  "Err_Error (New SlugInternal []) = Inr ''internal-error''
   \<and> Err_Error (WithDetails (NewFromError (errorString ''boom'')) ''ctx'') = Inr ''boom: : ctx''
   \<and> Err_Error (NewFromError nil) = Inl NilDereference"
  using Err_Error_render [of "New SlugInternal []" "''internal-error''" NilDereference SlugInternal "[]"]
    Err_Error_render [of "WithDetails (NewFromError (errorString ''boom'')) ''ctx''" "''boom''" NilDereference SlugInternal "[]"]
    Err_Error_render [of "NewFromError nil" "''''" NilDereference SlugInternal "[]"]
  by (simp add: New_def SlugInternal_def WithDetails_def NewFromError_def getErr_def errorsAs_Err_def)

section \<open>Fallbacks of the extraction functions\<close>

text \<open>
  Claim C9: the extraction functions never fail. They are total and return plain values:
  their only step that could panic is \<^verbatim>\<open>errors.As\<close>, and its target here is always a
  non-nil pointer to an \<^verbatim>\<open>Err\<close>. For every error, nil included, with no Typed Error in its
  unwrap chain, \<^verbatim>\<open>SlugFromErr\<close> returns \<^verbatim>\<open>SlugUnknown\<close>, \<^verbatim>\<open>DetailFromErr\<close> the text
  \<^verbatim>\<open>"unknown error"\<close> and \<^verbatim>\<open>ParamsFromErr\<close> the nil map, which has no entry.
\<close>

theorem extraction_fallbacks:
  assumes "\<forall>x \<in> set (chain err). \<not> assignable_Err x"
  shows "SlugFromErr err = SlugUnknown \<and> DetailFromErr err = ''unknown error''
       \<and> ParamsFromErr err = None \<and> len h (ParamsFromErr err) = 0"
  using errorsAs_Err_not_found [OF assms]
  by (simp add: SlugFromErr_def DetailFromErr_def ParamsFromErr_def len_def)

theorem extraction_fallbacks_witness:
  "SlugFromErr (wrapError ''ctx: boom'' (errorString ''boom'')) = SlugUnknown
   \<and> DetailFromErr (wrapError ''ctx: boom'' (errorString ''boom'')) = ''unknown error''
   \<and> ParamsFromErr (wrapError ''ctx: boom'' (errorString ''boom'')) = None
   \<and> SlugFromErr nil = SlugUnknown \<and> DetailFromErr nil = ''unknown error''
   \<and> ParamsFromErr nil = None"
  using extraction_fallbacks [of "wrapError ''ctx: boom'' (errorString ''boom'')"]
    extraction_fallbacks [of nil]
  by simp

section \<open>Validation errors\<close>

text \<open>
  Claim C10 says that \<^verbatim>\<open>NewFromValidator\<close> panics for every error that is neither an
  \<^verbatim>\<open>InvalidValidationError\<close> nor a \<^verbatim>\<open>ValidationErrors\<close> value. As stated it fails: the
  first test is \<^verbatim>\<open>errors.As\<close>, which looks through wrappers. The error
  \<^verbatim>\<open>fmt.Errorf("decode: %w", invalid)\<close>, with \<open>invalid\<close> an \<^verbatim>\<open>InvalidValidationError\<close>, is
  of neither type, and \<^verbatim>\<open>NewFromValidator\<close> returns on it.
\<close>

theorem NewFromValidator_wrapped_returns:
  "\<not> assignable_InvalidValidationError
       (Errorf_w ''decode: '' (InvalidValidationError ''validator: (nil)''))
   \<and> \<not> is_ValidationErrors (Errorf_w ''decode: '' (InvalidValidationError ''validator: (nil)''))
   \<and> NewFromValidator id (Errorf_w ''decode: '' (InvalidValidationError ''validator: (nil)''))
        None empty_heap
      = Inr (Err SlugInvalid (wrapError ''decode: validator: (nil)''
               (InvalidValidationError ''validator: (nil)'')) '''' None, empty_heap)"
  by (simp add: Errorf_w_def fmt_w_def NewFromValidator_def)

text \<open>
  Claim C10 as amended. \<^verbatim>\<open>NewFromValidator\<close> panics, at the type assertion, for every
  error that has no \<^verbatim>\<open>InvalidValidationError\<close> anywhere in its unwrap chain and is not
  itself a \<^verbatim>\<open>ValidationErrors\<close> value; it returns normally only when the error has an
  \<^verbatim>\<open>InvalidValidationError\<close> in its unwrap chain or is itself a \<^verbatim>\<open>ValidationErrors\<close>
  value.
\<close>

theorem NewFromValidator_panics_unless:
  "(\<not> list_ex assignable_InvalidValidationError (chain err) \<and> \<not> is_ValidationErrors err
      \<longrightarrow> NewFromValidator lower err translator h = Inl TypeAssertion)
   \<and> (NewFromValidator lower err translator h = Inr r
      \<longrightarrow> list_ex assignable_InvalidValidationError (chain err) \<or> is_ValidationErrors err)"
  by (cases err) (simp_all add: NewFromValidator_def errorsAs_None_iff del: errorsAs.simps)

theorem NewFromValidator_panics_unless_witness:
  "NewFromValidator id (errorString ''boom'') None empty_heap = Inl TypeAssertion
   \<and> NewFromValidator id nil None empty_heap = Inl TypeAssertion
   \<and> is_ValidationErrors (ValidationErrors ''email is required''
         [Some (FieldError ''email'' ''email is required'' (\<lambda>t. ''email manquant''))])
   \<and> NewFromValidator id (ValidationErrors ''email is required''
         [Some (FieldError ''email'' ''email is required'' (\<lambda>t. ''email manquant''))])
        None empty_heap
      = Inr (Err SlugInvalid (ValidationErrors ''email is required''
                [Some (FieldError ''email'' ''email is required'' (\<lambda>t. ''email manquant''))])
               '''' (Some 0),
             \<lparr>cells = (\<lambda>a. fmempty)(0 := fmupd ''email'' ''email is required'' fmempty),
              fresh = 1\<rparr>)"
  using NewFromValidator_panics_unless [of "errorString ''boom''" id None empty_heap
      "(Err nil nil '''' None, empty_heap)"]
    NewFromValidator_panics_unless [of nil id None empty_heap "(Err nil nil '''' None, empty_heap)"]
    NewFromValidator_panics_unless [of "ValidationErrors ''email is required''
         [Some (FieldError ''email'' ''email is required'' (\<lambda>t. ''email manquant''))]" id None
      empty_heap
      "(Err SlugInvalid (ValidationErrors ''email is required''
                [Some (FieldError ''email'' ''email is required'' (\<lambda>t. ''email manquant''))])
               '''' (Some 0),
             \<lparr>cells = (\<lambda>a. fmempty)(0 := fmupd ''email'' ''email is required'' fmempty),
              fresh = 1\<rparr>)"]
  by (simp add: NewFromValidator_def Add_def make_def store_def empty_heap_def)

end
